theory Spec2Isabelle
  imports Complex_Main
begin

section \<open>Values exchanged with the Polly API\<close>

text \<open>
  \<^verbatim>\<open>response.json()\<close> yields an arbitrary decoded JSON value: Python's \<^verbatim>\<open>None\<close>, a bool,
  an int, a float, a str, a list or a dict. A dict is an association list in insertion
  order (a decoded dict holds each key once); a str is its list of characters. The
  non-standard float literals that Python's decoder accepts (NaN, Infinity) behave like
  any non-zero float in everything modelled here and are not represented apart.
\<close>

datatype json =
    JNull
  | JBool bool
  | JInt int
  | JFloat real
  | JString string
  | JArray "json list"
  | JObject "(string \<times> json) list"

text \<open>The Python exceptions that the modelled code can raise and does not always catch.\<close>

datatype py_error =
  TypeError | AttributeError | KeyError | ValueError | ZeroDivisionError | RecursionError

text \<open>\<^verbatim>\<open>len(x)\<close>: defined on list, dict and str; a \<^verbatim>\<open>TypeError\<close> on every other value.\<close>

fun py_len :: "json \<Rightarrow> py_error + int" where
  "py_len (JArray xs) = Inr (int (length xs))"
| "py_len (JObject kvs) = Inr (int (length kvs))"
| "py_len (JString s) = Inr (int (length s))"
| "py_len JNull = Inl TypeError"
| "py_len (JBool b) = Inl TypeError"
| "py_len (JInt n) = Inl TypeError"
| "py_len (JFloat r) = Inl TypeError"

text \<open>Truth value of \<^verbatim>\<open>x\<close> in \<^verbatim>\<open>if x:\<close> and \<^verbatim>\<open>if not x:\<close>.\<close>

fun py_truthy :: "json \<Rightarrow> bool" where
  "py_truthy JNull = False"
| "py_truthy (JBool b) = b"
| "py_truthy (JInt n) = (n \<noteq> 0)"
| "py_truthy (JFloat r) = (r \<noteq> 0)"
| "py_truthy (JString s) = (s \<noteq> [])"
| "py_truthy (JArray xs) = (xs \<noteq> [])"
| "py_truthy (JObject kvs) = (kvs \<noteq> [])"

text \<open>
  The items that iterating over \<^verbatim>\<open>x\<close> yields (\<^verbatim>\<open>list.extend(x)\<close>, \<^verbatim>\<open>enumerate(x)\<close>): the
  elements of a list, the keys of a dict, the one-character strings of a str; a
  \<^verbatim>\<open>TypeError\<close> on every other value.
\<close>

fun py_iter :: "json \<Rightarrow> py_error + json list" where
  "py_iter (JArray xs) = Inr xs"
| "py_iter (JObject kvs) = Inr (map (\<lambda>kv. JString (fst kv)) kvs)"
| "py_iter (JString s) = Inr (map (\<lambda>c. JString [c]) s)"
| "py_iter JNull = Inl TypeError"
| "py_iter (JBool b) = Inl TypeError"
| "py_iter (JInt n) = Inl TypeError"
| "py_iter (JFloat r) = Inl TypeError"

text \<open>\<^verbatim>\<open>x.get(key, default)\<close>: a dict method; an \<^verbatim>\<open>AttributeError\<close> on every other value.\<close>

fun py_get :: "json \<Rightarrow> string \<Rightarrow> json \<Rightarrow> py_error + json" where
  "py_get (JObject kvs) key dflt = Inr (case map_of kvs key of None \<Rightarrow> dflt | Some v \<Rightarrow> v)"
| "py_get JNull key dflt = Inl AttributeError"
| "py_get (JBool b) key dflt = Inl AttributeError"
| "py_get (JInt n) key dflt = Inl AttributeError"
| "py_get (JFloat r) key dflt = Inl AttributeError"
| "py_get (JString s) key dflt = Inl AttributeError"
| "py_get (JArray xs) key dflt = Inl AttributeError"

text \<open>
  \<^verbatim>\<open>x[key]\<close> with a string key: a dict lookup that raises \<^verbatim>\<open>KeyError\<close> on a missing key; a
  \<^verbatim>\<open>TypeError\<close> on every other value (a list or str wants an integer index, the rest is
  not subscriptable).
\<close>

fun py_getitem :: "json \<Rightarrow> string \<Rightarrow> py_error + json" where
  "py_getitem (JObject kvs) key = (case map_of kvs key of None \<Rightarrow> Inl KeyError | Some v \<Rightarrow> Inr v)"
| "py_getitem JNull key = Inl TypeError"
| "py_getitem (JBool b) key = Inl TypeError"
| "py_getitem (JInt n) key = Inl TypeError"
| "py_getitem (JFloat r) key = Inl TypeError"
| "py_getitem (JString s) key = Inl TypeError"
| "py_getitem (JArray xs) key = Inl TypeError"

text \<open>
  \<^verbatim>\<open>str(x)\<close>, as an f-string applies it: a str is rendered as itself. The rendering of every
  other value (Python's \<^verbatim>\<open>repr\<close> of numbers, \<^verbatim>\<open>None\<close>, lists and dicts) belongs to the
  language, not to this repository, and is the parameter \<open>repr\<close>.
\<close>

fun py_str :: "(json \<Rightarrow> string) \<Rightarrow> json \<Rightarrow> string" where
  "py_str repr (JString s) = s"
| "py_str repr JNull = repr JNull"
| "py_str repr (JBool b) = repr (JBool b)"
| "py_str repr (JInt n) = repr (JInt n)"
| "py_str repr (JFloat r) = repr (JFloat r)"
| "py_str repr (JArray xs) = repr (JArray xs)"
| "py_str repr (JObject kvs) = repr (JObject kvs)"

section \<open>The transport and the result shapes\<close>

text \<open>
  What one call of \<^verbatim>\<open>requests.get\<close> or \<^verbatim>\<open>requests.post\<close> followed by \<^verbatim>\<open>response.json()\<close> can
  do: raise \<^verbatim>\<open>ConnectionError\<close>, raise another \<^verbatim>\<open>RequestException\<close> (carrying its text), or
  deliver a response with a status code. The body of a response either decodes to a JSON
  value, or makes \<^verbatim>\<open>response.json()\<close> raise the \<^verbatim>\<open>JSONDecodeError\<close> of \<^verbatim>\<open>requests\<close> (body \<open>None\<close>),
  or makes it raise an exception that is not one of \<^verbatim>\<open>requests\<close>: \<^verbatim>\<open>response.json()\<close> converts
  only the decoder's \<^verbatim>\<open>JSONDecodeError\<close>, so the plain \<^verbatim>\<open>ValueError\<close> of an integer literal
  beyond the digit limit and the \<^verbatim>\<open>RecursionError\<close> of a body nested too deep pass through
  it unchanged (\<open>DecodeRaises\<close>, with the status of the response and the exception).
\<close>

datatype http_outcome =
    ConnectionError
  | RequestException string
  | Response int "json option"
  | DecodeRaises int py_error

text \<open>
  The result dictionaries. A failure dictionary holds \<^verbatim>\<open>"success": False\<close>, \<^verbatim>\<open>"error"\<close> and,
  only on the status branch, \<^verbatim>\<open>"status_code"\<close>; the error is a message (a str) or the decoded
  body.
\<close>

record failure =
  status_code :: "int option"
  error :: json

record pagination =
  skip :: int
  limit :: int
  returned_count :: int

datatype fetch_result =
    FetchSuccess int json pagination
  | FetchFailure failure

datatype registration_result =
    RegSuccess int json
  | RegFailure failure

text \<open>
  The messages of the three \<^verbatim>\<open>except\<close> clauses. The pictograph that starts each message in
  the source is left out of the strings of this theory.
\<close>

definition connection_error_msg :: "string \<Rightarrow> string" where
  "connection_error_msg base_url =
     ''Could not connect to the API at '' @ base_url @ ''. Make sure the server is running.''"

definition json_error_msg :: string where
  "json_error_msg = ''Invalid JSON response from server''"

definition request_error_msg :: "string \<Rightarrow> string" where
  "request_error_msg e = ''Request failed: '' @ e"

section \<open>fetch_polls\<close>

text \<open>
  \<^verbatim>\<open>fetch_polls(skip, limit, base_url)\<close>, with the outcome of its one HTTP exchange as the last
  argument. \<open>Inl\<close> is an exception that leaves the function. The body is decoded before the
  status is looked at, so a response whose body does not decode takes the
  \<^verbatim>\<open>JSONDecodeError\<close> clause whatever its status. The three \<^verbatim>\<open>except\<close> clauses name
  exceptions of \<^verbatim>\<open>requests\<close> only: any other exception of \<^verbatim>\<open>response.json()\<close> leaves the
  function. On status 200 the first \<^verbatim>\<open>len(response_data)\<close>
  (in the progress line) raises for a body without a length, and no clause catches that.
  The progress lines themselves are not modelled.
\<close>

definition fetch_polls :: "int \<Rightarrow> int \<Rightarrow> string \<Rightarrow> http_outcome \<Rightarrow> py_error + fetch_result" where
  "fetch_polls skp lmt base_url outcome =
     (case outcome of
        ConnectionError \<Rightarrow>
          Inr (FetchFailure \<lparr>status_code = None, error = JString (connection_error_msg base_url)\<rparr>)
      | RequestException e \<Rightarrow>
          Inr (FetchFailure \<lparr>status_code = None, error = JString (request_error_msg e)\<rparr>)
      | Response status body \<Rightarrow>
          (case body of
             None \<Rightarrow> Inr (FetchFailure \<lparr>status_code = None, error = JString json_error_msg\<rparr>)
           | Some response_data \<Rightarrow>
               if status = 200 then
                 (case py_len response_data of
                    Inl e \<Rightarrow> Inl e
                  | Inr n \<Rightarrow>
                      Inr (FetchSuccess status response_data
                             \<lparr>skip = skp, limit = lmt, returned_count = n\<rparr>))
               else Inr (FetchFailure \<lparr>status_code = Some status, error = response_data\<rparr>))
      | DecodeRaises status e \<Rightarrow> Inl e)"

section \<open>register_user\<close>

text \<open>
  \<^verbatim>\<open>register_user(username, password, base_url)\<close>, with the outcome of its HTTP exchange as the
  last argument. The result is the list of printed lines together with what the function
  returns or raises. On status 200 the second progress line evaluates
  \<^verbatim>\<open>response_data.get('id')\<close>, an \<^verbatim>\<open>AttributeError\<close> when the body is not a dict; the first
  line is printed by then. An exception of \<^verbatim>\<open>response.json()\<close> that is not one of
  \<^verbatim>\<open>requests\<close> leaves the function before anything is printed.
\<close>

definition register_user ::
  "(json \<Rightarrow> string) \<Rightarrow> string \<Rightarrow> string \<Rightarrow> string \<Rightarrow> http_outcome
     \<Rightarrow> string list \<times> (py_error + registration_result)" where
  "register_user repr username password base_url outcome =
     (case outcome of
        ConnectionError \<Rightarrow>
          ([connection_error_msg base_url],
           Inr (RegFailure \<lparr>status_code = None, error = JString (connection_error_msg base_url)\<rparr>))
      | RequestException e \<Rightarrow>
          ([request_error_msg e],
           Inr (RegFailure \<lparr>status_code = None, error = JString (request_error_msg e)\<rparr>))
      | Response status body \<Rightarrow>
          (case body of
             None \<Rightarrow>
               ([json_error_msg],
                Inr (RegFailure \<lparr>status_code = None, error = JString json_error_msg\<rparr>))
           | Some response_data \<Rightarrow>
               if status = 200 then
                 (case py_get response_data ''id'' JNull of
                    Inl e \<Rightarrow> ([''User '' @ [CHR 0x27] @ username @ [CHR 0x27] @ '' registered successfully!''], Inl e)
                  | Inr uid \<Rightarrow>
                      ([''User '' @ [CHR 0x27] @ username @ [CHR 0x27] @ '' registered successfully!'',
                        ''User ID: '' @ py_str repr uid],
                       Inr (RegSuccess status response_data)))
               else if status = 400 then
                 ([''Registration failed: '' @ py_str repr response_data],
                  Inr (RegFailure \<lparr>status_code = Some status, error = response_data\<rparr>))
               else
                 ([''Unexpected status code: '' @ py_str repr (JInt status)],
                  Inr (RegFailure \<lparr>status_code = Some status, error = response_data\<rparr>)))
      | DecodeRaises status e \<Rightarrow> ([], Inl e))"

section \<open>fetch_all_polls\<close>

text \<open>
  The aggregate dictionary: \<^verbatim>\<open>"data"\<close>, \<^verbatim>\<open>"total_count"\<close> and \<^verbatim>\<open>"pagination_info"\<close>; or the
  failure dictionary of \<^verbatim>\<open>fetch_polls\<close>, handed on as it is.
\<close>

record page_info =
  page_size :: int
  total_requests :: int

datatype aggregate_result =
    AggSuccess "json list" int page_info
  | AggFailure failure

text \<open>
  The local variables of the loop; \<open>cur_skip\<close> is the variable \<^verbatim>\<open>skip\<close> (the plain name
  is the key of the pagination dictionary above). \<open>requests\<close> is not a variable of the source: it counts
  the calls of \<^verbatim>\<open>fetch_polls\<close> made so far, so that the answers of the transport may depend
  on the position of the call and so that the number of calls can be spoken about.
\<close>

record loop_state =
  all_polls :: "json list"
  cur_skip :: int
  total_fetched :: int
  requests :: nat

type_synonym transport = "nat \<Rightarrow> int \<Rightarrow> int \<Rightarrow> http_outcome"

definition initial_state :: loop_state where
  "initial_state = \<lparr>all_polls = [], cur_skip = 0, total_fetched = 0, requests = 0\<rparr>"

text \<open>Lines 146 to 152: the limit of this request, \<open>None\<close> for the \<^verbatim>\<open>break\<close>.\<close>

definition current_limit :: "int \<Rightarrow> int option \<Rightarrow> int \<Rightarrow> int option" where
  "current_limit page_sz max_polls fetched =
     (case max_polls of
        Some m \<Rightarrow>
          (let remaining = m - fetched
           in if remaining \<le> 0 then None else Some (min page_sz remaining))
      | None \<Rightarrow> Some page_sz)"

text \<open>
  Lines 178 to 186, the code after the loop. \<^verbatim>\<open>//\<close> and \<^verbatim>\<open>%\<close> are floor division and its
  remainder, as \<open>div\<close> and \<open>mod\<close> on \<open>int\<close> are; both raise on a zero divisor.
\<close>

definition finish :: "int \<Rightarrow> loop_state \<Rightarrow> py_error + aggregate_result" where
  "finish page_sz st =
     (if page_sz = 0 then Inl ZeroDivisionError
      else Inr (AggSuccess (all_polls st) (total_fetched st)
                  \<lparr>page_size = page_sz,
                   total_requests =
                     cur_skip st div page_sz
                       + (if cur_skip st mod page_sz > 0 then 1 else 0)\<rparr>))"

text \<open>
  One iteration of \<^verbatim>\<open>while True\<close>: either the state at the start of the next iteration, or
  the number of requests made together with what the function returns or raises.
\<close>

datatype step = Next loop_state | Done nat "py_error + aggregate_result"

definition loop_body :: "transport \<Rightarrow> string \<Rightarrow> int \<Rightarrow> int option \<Rightarrow> loop_state \<Rightarrow> step" where
  "loop_body transport base_url page_sz max_polls st =
     (case current_limit page_sz max_polls (total_fetched st) of
        None \<Rightarrow> Done (requests st) (finish page_sz st)
      | Some cl \<Rightarrow>
          (case fetch_polls (cur_skip st) cl base_url
                  (transport (requests st) (cur_skip st) cl) of
             Inl e \<Rightarrow> Done (Suc (requests st)) (Inl e)
           | Inr (FetchFailure f) \<Rightarrow> Done (Suc (requests st)) (Inr (AggFailure f))
           | Inr (FetchSuccess sc current_polls pg) \<Rightarrow>
               if \<not> py_truthy current_polls then Done (Suc (requests st)) (finish page_sz st)
               else
                 (case py_iter current_polls of
                    Inl e \<Rightarrow> Done (Suc (requests st)) (Inl e)
                  | Inr items \<Rightarrow>
                      (case py_len current_polls of
                         Inl e \<Rightarrow> Done (Suc (requests st)) (Inl e)
                       | Inr n \<Rightarrow>
                           (let st' = \<lparr>all_polls = all_polls st @ items,
                                       cur_skip = cur_skip st + n,
                                       total_fetched = total_fetched st + n,
                                       requests = Suc (requests st)\<rparr>
                            in if n < cl then Done (requests st') (finish page_sz st')
                               else Next st')))))"

text \<open>The loop may run forever: \<open>None\<close> is the run that never leaves it.\<close>

partial_function (option) fetch_all_loop ::
  "transport \<Rightarrow> string \<Rightarrow> int \<Rightarrow> int option \<Rightarrow> loop_state
     \<Rightarrow> (nat \<times> (py_error + aggregate_result)) option" where
  "fetch_all_loop transport base_url page_sz max_polls st =
     (case loop_body transport base_url page_sz max_polls st of
        Next st' \<Rightarrow> fetch_all_loop transport base_url page_sz max_polls st'
      | Done k r \<Rightarrow> Some (k, r))"

declare fetch_all_loop.simps [code]

definition fetch_all_polls ::
  "transport \<Rightarrow> string \<Rightarrow> int \<Rightarrow> int option \<Rightarrow> (py_error + aggregate_result) option" where
  "fetch_all_polls transport base_url page_sz max_polls =
     map_option snd (fetch_all_loop transport base_url page_sz max_polls initial_state)"

definition requests_issued :: "transport \<Rightarrow> string \<Rightarrow> int \<Rightarrow> int option \<Rightarrow> nat option" where
  "requests_issued transport base_url page_sz max_polls =
     map_option fst (fetch_all_loop transport base_url page_sz max_polls initial_state)"

text \<open>The states in which an iteration of the loop starts.\<close>

inductive reachable :: "transport \<Rightarrow> string \<Rightarrow> int \<Rightarrow> int option \<Rightarrow> loop_state \<Rightarrow> bool"
  for transport base_url page_sz max_polls where
  reachable_init: "reachable transport base_url page_sz max_polls initial_state"
| reachable_step:
    "reachable transport base_url page_sz max_polls st \<Longrightarrow>
     loop_body transport base_url page_sz max_polls st = Next st' \<Longrightarrow>
     reachable transport base_url page_sz max_polls st'"

text \<open>
  A simulated data source holding the records \<open>records\<close>: every request is answered with
  status 200 and the slice \<^verbatim>\<open>records[skip:skip+limit]\<close>, whatever the position of the call.
\<close>

definition simulated_source :: "json list \<Rightarrow> transport" where
  "simulated_source records k skp lmt =
     Response 200 (Some (JArray (take (nat lmt) (drop (nat skp) records))))"

text \<open>
  The number of records that a run against the simulated source ends with: all of them,
  or the first \<^verbatim>\<open>max_polls\<close> when that is less.
\<close>

definition expected_total :: "json list \<Rightarrow> int option \<Rightarrow> nat" where
  "expected_total records max_polls =
     (case max_polls of None \<Rightarrow> length records | Some m \<Rightarrow> min (nat m) (length records))"

section \<open>display_polls\<close>

text \<open>
  A computation that prints: the lines printed so far (one entry for each call of
  \<^verbatim>\<open>print\<close>), and the value it returns or the exception that ends it. What was printed
  before an exception stays printed.
\<close>

type_synonym 'a out = "string list \<times> (py_error + 'a)"

definition out_print :: "string \<Rightarrow> unit out" where
  "out_print line = ([line], Inr ())"

definition out_eval :: "py_error + 'a \<Rightarrow> 'a out" where
  "out_eval r = ([], r)"

definition out_bind :: "'a out \<Rightarrow> ('a \<Rightarrow> 'b out) \<Rightarrow> 'b out" where
  "out_bind m f =
     (case snd m of
        Inl e \<Rightarrow> (fst m, Inl e)
      | Inr x \<Rightarrow> (fst m @ fst (f x), snd (f x)))"

text \<open>\<^verbatim>\<open>s.replace("Z", "+00:00")\<close> on a str, and the method call on an arbitrary value.\<close>

definition replace_Z :: "string \<Rightarrow> string" where
  "replace_Z s = concat (map (\<lambda>c. if c = CHR ''Z'' then ''+00:00'' else [c]) s)"

fun py_replace_Z :: "json \<Rightarrow> py_error + string" where
  "py_replace_Z (JString s) = Inr (replace_Z s)"
| "py_replace_Z JNull = Inl AttributeError"
| "py_replace_Z (JBool b) = Inl AttributeError"
| "py_replace_Z (JInt n) = Inl AttributeError"
| "py_replace_Z (JFloat r) = Inl AttributeError"
| "py_replace_Z (JArray xs) = Inl AttributeError"
| "py_replace_Z (JObject kvs) = Inl AttributeError"

text \<open>
  Lines 205 to 209. \<^verbatim>\<open>datetime.fromisoformat\<close> and \<^verbatim>\<open>strftime("%Y-%m-%d %H:%M:%S")\<close> belong to
  the standard library and are parameters: \<open>fromisoformat s = None\<close> is the \<^verbatim>\<open>ValueError\<close>
  of a string that does not parse. The handler catches \<^verbatim>\<open>ValueError\<close> and \<^verbatim>\<open>KeyError\<close> only.
\<close>

definition formatted_date ::
  "(string \<Rightarrow> 'dt option) \<Rightarrow> ('dt \<Rightarrow> string) \<Rightarrow> json \<Rightarrow> py_error + json" where
  "formatted_date fromisoformat strftime poll =
     (let attempt =
        (case py_getitem poll ''created_at'' of
           Inl e \<Rightarrow> Inl e
         | Inr v \<Rightarrow>
             (case py_replace_Z v of
                Inl e \<Rightarrow> Inl e
              | Inr s \<Rightarrow>
                  (case fromisoformat s of
                     None \<Rightarrow> Inl ValueError
                   | Some created_at \<Rightarrow> Inr (JString (strftime created_at)))))
      in case attempt of
           Inr d \<Rightarrow> Inr d
         | Inl e \<Rightarrow>
             if e = ValueError \<or> e = KeyError
             then py_get poll ''created_at'' (JString ''Unknown'')
             else Inl e)"

text \<open>Lines 220 and 221: the loop over \<^verbatim>\<open>enumerate(options, 1)\<close>.\<close>

fun option_lines :: "(json \<Rightarrow> string) \<Rightarrow> int \<Rightarrow> json list \<Rightarrow> unit out" where
  "option_lines repr i [] = ([], Inr ())"
| "option_lines repr i (opt # rest) =
     out_bind (out_eval (py_get opt ''text'' (JString ''N/A''))) (\<lambda>t.
     out_bind (out_eval (py_get opt ''id'' (JString ''N/A''))) (\<lambda>oid.
     out_bind (out_print (''   '' @ py_str repr (JInt i) @ ''. '' @ py_str repr t
                            @ '' (ID: '' @ py_str repr oid @ '')'')) (\<lambda>_.
     option_lines repr (i + 1) rest)))"

text \<open>Lines 204 to 225: the body of the loop over the polls.\<close>

definition display_poll ::
  "(string \<Rightarrow> 'dt option) \<Rightarrow> ('dt \<Rightarrow> string) \<Rightarrow> (json \<Rightarrow> string) \<Rightarrow> json \<Rightarrow> unit out" where
  "display_poll fromisoformat strftime repr poll =
     out_bind (out_eval (formatted_date fromisoformat strftime poll)) (\<lambda>fdate.
     out_bind (out_eval (py_get poll ''id'' (JString ''N/A''))) (\<lambda>pid.
     out_bind (out_print (CHR 0x0A # ''Poll ID: '' @ py_str repr pid)) (\<lambda>_.
     out_bind (out_eval (py_get poll ''question'' (JString ''N/A''))) (\<lambda>question.
     out_bind (out_print (''Question: '' @ py_str repr question)) (\<lambda>_.
     out_bind (out_eval (py_get poll ''owner_id'' (JString ''N/A''))) (\<lambda>owner.
     out_bind (out_print (''Owner ID: '' @ py_str repr owner)) (\<lambda>_.
     out_bind (out_print (''Created: '' @ py_str repr fdate)) (\<lambda>_.
     out_bind (out_eval (py_get poll ''options'' (JArray []))) (\<lambda>options.
     out_bind
       (if py_truthy options then
          out_bind (out_print ''Options:'') (\<lambda>_.
          out_bind (out_eval (py_iter options)) (\<lambda>items.
          option_lines repr 1 items))
        else out_print ''Options: None'') (\<lambda>_.
     out_print (replicate 40 (CHR ''-''))))))))))))"

fun poll_lines ::
  "(string \<Rightarrow> 'dt option) \<Rightarrow> ('dt \<Rightarrow> string) \<Rightarrow> (json \<Rightarrow> string) \<Rightarrow> json list \<Rightarrow> unit out" where
  "poll_lines fromisoformat strftime repr [] = ([], Inr ())"
| "poll_lines fromisoformat strftime repr (poll # rest) =
     out_bind (display_poll fromisoformat strftime repr poll) (\<lambda>_.
     poll_lines fromisoformat strftime repr rest)"

definition display_polls ::
  "(string \<Rightarrow> 'dt option) \<Rightarrow> ('dt \<Rightarrow> string) \<Rightarrow> (json \<Rightarrow> string) \<Rightarrow> json list \<Rightarrow> unit out" where
  "display_polls fromisoformat strftime repr polls_data =
     (if polls_data = [] then out_print ''No polls to display''
      else
        out_bind (out_print (CHR 0x0A # ''Displaying ''
                               @ py_str repr (JInt (int (length polls_data))) @ '' polls:'')) (\<lambda>_.
        out_bind (out_print (replicate 60 (CHR ''=''))) (\<lambda>_.
        poll_lines fromisoformat strftime repr polls_data)))"

text \<open>
  The records that \<open>display_poll\<close> gets through: a dict whose \<^verbatim>\<open>created_at\<close>, when present, is
  a str, and whose \<^verbatim>\<open>options\<close>, when present, is a value that counts as false or a list of
  dicts.
\<close>

fun is_dict :: "json \<Rightarrow> bool" where
  "is_dict (JObject kvs) = True"
| "is_dict JNull = False"
| "is_dict (JBool b) = False"
| "is_dict (JInt n) = False"
| "is_dict (JFloat r) = False"
| "is_dict (JString s) = False"
| "is_dict (JArray xs) = False"

fun is_str :: "json \<Rightarrow> bool" where
  "is_str (JString s) = True"
| "is_str JNull = False"
| "is_str (JBool b) = False"
| "is_str (JInt n) = False"
| "is_str (JFloat r) = False"
| "is_str (JArray xs) = False"
| "is_str (JObject kvs) = False"

fun is_list_of_dicts :: "json \<Rightarrow> bool" where
  "is_list_of_dicts (JArray xs) = list_all is_dict xs"
| "is_list_of_dicts JNull = False"
| "is_list_of_dicts (JBool b) = False"
| "is_list_of_dicts (JInt n) = False"
| "is_list_of_dicts (JFloat r) = False"
| "is_list_of_dicts (JString s) = False"
| "is_list_of_dicts (JObject kvs) = False"

fun displayable :: "json \<Rightarrow> bool" where
  "displayable (JObject kvs) =
     ((case map_of kvs ''created_at'' of None \<Rightarrow> True | Some v \<Rightarrow> is_str v) \<and>
      (case map_of kvs ''options'' of
         None \<Rightarrow> True
       | Some opts \<Rightarrow> \<not> py_truthy opts \<or> is_list_of_dicts opts))"
| "displayable JNull = False"
| "displayable (JBool b) = False"
| "displayable (JInt n) = False"
| "displayable (JFloat r) = False"
| "displayable (JString s) = False"
| "displayable (JArray xs) = False"

section \<open>Concrete inputs\<close>

text \<open>
  Inputs on which the definitions above are evaluated below: three poll records in the
  shape of the documented schema, a base URL, and a transport that answers the first call
  from a record list and lets every later call fail to connect.
\<close>

definition poll_a :: json where
  "poll_a = JObject [(''id'', JInt 1), (''question'', JString ''Tabs or spaces?''),
     (''created_at'', JString ''2024-01-15T10:30:00Z''), (''owner_id'', JInt 101),
     (''options'', JArray [JObject [(''id'', JInt 1), (''text'', JString ''Tabs''), (''poll_id'', JInt 1)],
                          JObject [(''id'', JInt 2), (''text'', JString ''Spaces''), (''poll_id'', JInt 1)]])]"

definition poll_b :: json where
  "poll_b = JObject [(''id'', JInt 2), (''question'', JString ''Best time for daily standup?''),
     (''created_at'', JString ''yesterday''), (''owner_id'', JInt 102),
     (''options'', JArray [])]"

definition poll_c :: json where
  "poll_c = JObject [(''question'', JString ''Lunch?'')]"

definition sample_polls :: "json list" where
  "sample_polls = [poll_a, poll_b, poll_c]"

definition local_url :: string where
  "local_url = ''http://localhost:8000''"

definition dropping_source :: "json list \<Rightarrow> transport" where
  "dropping_source records k skp lmt =
     (if k = 0 then simulated_source records k skp lmt else ConnectionError)"

text \<open>
  One instance of the library parameters: \<open>sample_repr\<close> renders \<^verbatim>\<open>None\<close>, booleans and
  integers as Python does and stands for every other value with an ellipsis;
  \<open>sample_fromisoformat\<close> parses the one timestamp it knows and rejects every other string; a
  parsed timestamp is kept as its formatted text, which \<open>sample_strftime\<close> hands back.
\<close>

fun digits :: "nat \<Rightarrow> string" where
  "digits n =
     (if n < 10 then [''0123456789'' ! n]
      else digits (n div 10) @ [''0123456789'' ! (n mod 10)])"

fun sample_repr :: "json \<Rightarrow> string" where
  "sample_repr JNull = ''None''"
| "sample_repr (JBool b) = (if b then ''True'' else ''False'')"
| "sample_repr (JInt n) = (if n < 0 then ''-'' @ digits (nat (- n)) else digits (nat n))"
| "sample_repr (JFloat r) = ''...''"
| "sample_repr (JString s) = ''...''"
| "sample_repr (JArray xs) = ''...''"
| "sample_repr (JObject kvs) = ''...''"

definition sample_fromisoformat :: "string \<Rightarrow> string option" where
  "sample_fromisoformat s =
     (if s = ''2024-01-15T10:30:00+00:00'' then Some ''2024-01-15 10:30:00'' else None)"

definition sample_strftime :: "string \<Rightarrow> string" where
  "sample_strftime created_at = created_at"

section \<open>Facts about the wrappers\<close>

lemma py_len_iter:
  "py_len d = Inr n \<Longrightarrow> \<exists>items. py_iter d = Inr items \<and> int (length items) = n"
  by (cases d) auto

lemma py_len_truthy: "py_len d = Inr n \<Longrightarrow> py_truthy d \<Longrightarrow> 0 < n"
  by (cases d) auto

lemma fetch_polls_success_iff:
  "fetch_polls skp lmt base_url outcome = Inr (FetchSuccess sc d pg) \<longleftrightarrow>
     outcome = Response 200 (Some d) \<and> sc = 200 \<and>
     (\<exists>n. py_len d = Inr n \<and> pg = \<lparr>skip = skp, limit = lmt, returned_count = n\<rparr>)"
  by (auto simp: fetch_polls_def split: http_outcome.splits option.splits sum.splits)

lemma fetch_polls_simulated:
  "fetch_polls skp lmt base_url (simulated_source records k skp lmt) =
        Inr (FetchSuccess 200 (JArray (take (nat lmt) (drop (nat skp) records)))
               \<lparr>skip = skp, limit = lmt,
                returned_count = int (length (take (nat lmt) (drop (nat skp) records)))\<rparr>)"
  by (simp add: simulated_source_def fetch_polls_def)

lemma register_user_non_object:
  "(\<forall>kvs. body \<noteq> JObject kvs) \<Longrightarrow>
      snd (register_user repr username password base_url (Response 200 (Some body))) =
        Inl AttributeError"
  by (cases body; simp add: register_user_def)

lemma register_user_success_only:
  assumes "snd (register_user repr username password base_url outcome) = Inr (RegSuccess sc d)"
  shows "outcome = Response 200 (Some d) \<and> sc = 200 \<and> (\<exists>kvs. d = JObject kvs)"
proof (cases outcome)
  case ConnectionError
  with assms show ?thesis by (simp add: register_user_def)
next
  case (RequestException e)
  with assms show ?thesis by (simp add: register_user_def)
next
  case (Response status body)
  show ?thesis
  proof (cases body)
    case None
    with assms Response show ?thesis by (simp add: register_user_def)
  next
    case (Some b)
    with assms Response have s: "status = 200"
      by (simp add: register_user_def split: if_splits)
    have "\<exists>kvs. b = JObject kvs"
    proof (rule ccontr)
      assume "\<not> ?thesis"
      then have "snd (register_user repr username password base_url (Response 200 (Some b))) =
        Inl AttributeError" by (intro register_user_non_object) simp
      with assms Response Some s show False by simp
    qed
    then obtain kvs where "b = JObject kvs" by blast
    with assms Response Some s show ?thesis by (auto simp add: register_user_def)
  qed
next
  case (DecodeRaises status e)
  with assms show ?thesis by (simp add: register_user_def)
qed

section \<open>Facts about the loop\<close>

lemma loop_body_Next:
  "loop_body transport base_url page_sz max_polls st = Next st' \<longleftrightarrow>
     (\<exists>cl sc d pg items.
        current_limit page_sz max_polls (total_fetched st) = Some cl \<and>
        fetch_polls (cur_skip st) cl base_url (transport (requests st) (cur_skip st) cl)
          = Inr (FetchSuccess sc d pg) \<and>
        py_truthy d \<and> py_iter d = Inr items \<and> py_len d = Inr (returned_count pg) \<and>
        cl \<le> returned_count pg \<and>
        st' = \<lparr>all_polls = all_polls st @ items,
               cur_skip = cur_skip st + returned_count pg,
               total_fetched = total_fetched st + returned_count pg,
               requests = Suc (requests st)\<rparr>)"
  (is "?L \<longleftrightarrow> ?R")
proof
  assume ?L
  then obtain cl where cl: "current_limit page_sz max_polls (total_fetched st) = Some cl"
    by (auto simp: loop_body_def split: option.splits)
  from \<open>?L\<close> cl obtain sc d pg where
    f: "fetch_polls (cur_skip st) cl base_url (transport (requests st) (cur_skip st) cl)
          = Inr (FetchSuccess sc d pg)"
    by (auto simp: loop_body_def split: sum.splits fetch_result.splits)
  then have n: "py_len d = Inr (returned_count pg)"
    by (auto simp: fetch_polls_success_iff)
  then obtain items where it: "py_iter d = Inr items" using py_len_iter by blast
  from \<open>?L\<close> cl f n it show ?R
    by (auto simp: loop_body_def Let_def split: if_splits)
next
  assume ?R
  then show ?L by (auto simp: loop_body_def Let_def)
qed

lemma loop_body_failure:
  "current_limit page_sz max_polls (total_fetched st) = Some cl \<Longrightarrow>
   fetch_polls (cur_skip st) cl base_url (transport (requests st) (cur_skip st) cl)
      = Inr (FetchFailure f) \<Longrightarrow>
   loop_body transport base_url page_sz max_polls st = Done (Suc (requests st)) (Inr (AggFailure f))"
  by (simp add: loop_body_def)

lemma reachable_same_result:
  "reachable transport base_url page_sz max_polls st \<Longrightarrow>
   fetch_all_loop transport base_url page_sz max_polls st =
   fetch_all_loop transport base_url page_sz max_polls initial_state"
proof (induction rule: reachable.induct)
  case reachable_init
  show ?case by simp
next
  case (reachable_step st st')
  have "fetch_all_loop transport base_url page_sz max_polls st =
        fetch_all_loop transport base_url page_sz max_polls st'"
    using reachable_step.hyps(2) by (subst fetch_all_loop.simps) simp
  with reachable_step.IH show ?case by simp
qed

lemma reachable_Done:
  assumes "reachable transport base_url page_sz max_polls st"
    and "loop_body transport base_url page_sz max_polls st = Done k r"
  shows "fetch_all_loop transport base_url page_sz max_polls initial_state = Some (k, r)"
proof -
  have "fetch_all_loop transport base_url page_sz max_polls st = Some (k, r)"
    by (subst fetch_all_loop.simps) (simp add: assms(2))
  then show ?thesis using reachable_same_result [OF assms(1)] by simp
qed

lemma loop_result_from:
  assumes "fetch_all_loop transport base_url page_sz max_polls st = Some y"
  shows "reachable transport base_url page_sz max_polls st \<longrightarrow>
   (\<exists>st'. reachable transport base_url page_sz max_polls st' \<and>
         loop_body transport base_url page_sz max_polls st' = Done (fst y) (snd y))"
proof (rule fetch_all_loop.raw_induct
    [where P = "\<lambda>T b ps mp s r. reachable T b ps mp s \<longrightarrow>
       (\<exists>st'. reachable T b ps mp st' \<and> loop_body T b ps mp st' = Done (fst r) (snd r))",
     OF _ assms], goal_cases)
  case (1 loop T b ps mp s r)
  show ?case
  proof
    assume reach: "reachable T b ps mp s"
    show "\<exists>st'. reachable T b ps mp st' \<and> loop_body T b ps mp st' = Done (fst r) (snd r)"
    proof (cases "loop_body T b ps mp s")
      case (Next s')
      then have "reachable T b ps mp s'"
        using reach reachable_step by blast
      moreover have "loop T b ps mp s' = Some r"
        using 1(2) Next by simp
      ultimately show ?thesis using 1(1) by blast
    next
      case (Done k res)
      then have "r = (k, res)" using 1(2) by simp
      then show ?thesis using Done reach by auto
    qed
  qed
qed

lemma reachable_invariant:
  "reachable transport base_url page_sz max_polls st \<Longrightarrow>
   cur_skip st = total_fetched st \<and> total_fetched st = int (length (all_polls st)) \<and>
   (requests st = 0 \<longleftrightarrow> st = initial_state)"
proof (induction rule: reachable.induct)
  case reachable_init
  show ?case by (simp add: initial_state_def)
next
  case (reachable_step st st')
  from reachable_step.hyps(2) obtain d and pg :: pagination and items where
    "py_iter d = Inr items" "py_len d = Inr (returned_count pg)"
    "st' = \<lparr>all_polls = all_polls st @ items,
               cur_skip = cur_skip st + returned_count pg,
               total_fetched = total_fetched st + returned_count pg,
               requests = Suc (requests st)\<rparr>"
    by (auto simp: loop_body_Next)
  moreover from this have "int (length items) = returned_count pg"
    using py_len_iter by fastforce
  ultimately show ?case using reachable_step.IH by (simp add: initial_state_def)
qed

lemma loop_body_Done_success:
  assumes "loop_body transport base_url page_sz max_polls st = Done k (Inr (AggSuccess d tc pinfo))"
    and "cur_skip st = total_fetched st"
  shows "page_sz \<noteq> 0 \<and>
         pinfo = \<lparr>page_size = page_sz,
               total_requests = tc div page_sz + (if tc mod page_sz > 0 then 1 else 0)\<rparr>"
  using assms
  by (auto simp: loop_body_def finish_def Let_def
           split: option.splits sum.splits fetch_result.splits if_splits)

lemma ceiling_div_int:
  fixes a b :: int
  assumes "0 < b"
  shows "\<lceil>real_of_int a / real_of_int b\<rceil> = a div b + (if a mod b > 0 then 1 else 0)"
proof -
  have "0 < a mod b \<longleftrightarrow> a mod b \<noteq> 0"
    using pos_mod_sign [of b a] assms by arith
  then show ?thesis
    using assms by (simp add: ceiling_divide_eq_div zdiv_zminus1_eq_if)
qed

lemma loop_body_simulated:
  "loop_body (simulated_source records) base_url page_sz max_polls st =
     (case current_limit page_sz max_polls (total_fetched st) of
        None \<Rightarrow> Done (requests st) (finish page_sz st)
      | Some cl \<Rightarrow>
          (let page = take (nat cl) (drop (nat (cur_skip st)) records);
               st' = \<lparr>all_polls = all_polls st @ page,
                      cur_skip = cur_skip st + int (length page),
                      total_fetched = total_fetched st + int (length page),
                      requests = Suc (requests st)\<rparr>
           in if page = [] then Done (Suc (requests st)) (finish page_sz st)
              else if int (length page) < cl then Done (Suc (requests st)) (finish page_sz st')
              else Next st'))"
  by (simp add: loop_body_def fetch_polls_simulated Let_def split: option.splits)

lemma simulated_run:
  assumes "1 \<le> page_sz"
  shows "cur_skip st = int t \<Longrightarrow> total_fetched st = int t \<Longrightarrow> t \<le> expected_total records max_polls \<Longrightarrow>
     map_option snd (fetch_all_loop (simulated_source records) base_url page_sz max_polls st) =
       Some (finish page_sz
         \<lparr>all_polls = all_polls st @ take (expected_total records max_polls - t) (drop t records),
          cur_skip = int (expected_total records max_polls),
          total_fetched = int (expected_total records max_polls),
          requests = 0\<rparr>)"
proof (induction "expected_total records max_polls - t" arbitrary: st t rule: less_induct)
  case less
  let ?T = "expected_total records max_polls"
  show ?case
  proof (cases "current_limit page_sz max_polls (total_fetched st)")
    case None
    then obtain m where m: "max_polls = Some m" "m - int t \<le> 0"
      using less.prems by (auto simp: current_limit_def Let_def split: option.splits if_splits)
    then have "?T = t" using less.prems by (auto simp: expected_total_def)
    then show ?thesis
      using None less.prems
      by (subst fetch_all_loop.simps) (simp add: loop_body_simulated finish_def)
  next
    case (Some cl)
    then have cl: "1 \<le> cl" "nat cl \<le> nat page_sz"
      and clm: "\<And>m. max_polls = Some m \<Longrightarrow> int t + cl \<le> m"
      using less.prems assms
      by (auto simp: current_limit_def Let_def split: option.splits if_splits)
    let ?page = "take (nat cl) (drop t records)"
    have T_le: "?T \<le> length records" by (simp add: expected_total_def split: option.splits)
    show ?thesis
    proof (cases "?page = []")
      case True
      then have "length records \<le> t" using cl by auto
      then have "?T = t" using less.prems T_le by simp
      then show ?thesis
        using Some True less.prems
        by (subst fetch_all_loop.simps) (simp add: loop_body_simulated finish_def)
    next
      case False
      show ?thesis
      proof (cases "int (length ?page) < cl")
        case True
        then have "length ?page = length records - t" by auto
        then have pg: "?page = drop t records" using True by simp
        have "?T = length records" using True clm less.prems
          by (auto simp: expected_total_def split: option.splits)
        then show ?thesis
          using Some True False less.prems pg
          by (subst fetch_all_loop.simps) (simp add: loop_body_simulated finish_def Let_def)
      next
        case nlt: False
        then have len: "length ?page = nat cl" by auto
        let ?st' = "\<lparr>all_polls = all_polls st @ ?page,
                      cur_skip = cur_skip st + int (length ?page),
                      total_fetched = total_fetched st + int (length ?page),
                      requests = Suc (requests st)\<rparr>"
        have le_rec: "t + nat cl \<le> length records" using len cl by (simp add: min_def split: if_splits)
        have le_T: "t + nat cl \<le> ?T" using le_rec clm cl
          by (auto simp: expected_total_def split: option.splits)
        have step: "fetch_all_loop (simulated_source records) base_url page_sz max_polls st =
              fetch_all_loop (simulated_source records) base_url page_sz max_polls ?st'"
          using Some False nlt less.prems
          by (subst fetch_all_loop.simps) (simp add: loop_body_simulated Let_def)
        have IH: "map_option snd (fetch_all_loop (simulated_source records) base_url page_sz max_polls ?st') =
            Some (finish page_sz
         \<lparr>all_polls = all_polls ?st' @ take (?T - (t + nat cl)) (drop (t + nat cl) records),
          cur_skip = int ?T, total_fetched = int ?T, requests = 0\<rparr>)"
        proof (rule less.hyps)
          have "0 < nat cl" using cl by simp
          then show "?T - (t + nat cl) < ?T - t" using le_T by arith
          show "cur_skip ?st' = int (t + nat cl)" using less.prems len by simp
          show "total_fetched ?st' = int (t + nat cl)" using less.prems len by simp
          show "t + nat cl \<le> ?T" by (rule le_T)
        qed
        have "?page @ take (?T - (t + nat cl)) (drop (t + nat cl) records) = take (?T - t) (drop t records)"
        proof -
          have "?T - t = nat cl + (?T - (t + nat cl))" using le_T by simp
          then show ?thesis by (simp add: take_add add.commute)
        qed
        then show ?thesis using step IH by simp
      qed
    qed
  qed
qed

section \<open>The single-request wrappers\<close>

text \<open>
  Claim C4, as amended. Every successful result of \<open>fetch_polls\<close> reports as
  \<open>returned_count\<close> the length of the \<open>data\<close> it carries, echoes the \<open>skip\<close> and \<open>limit\<close> it
  was called with, and comes from a status 200 response whose decoded body is that data.
  The wrapper never truncates the body, so \<open>returned_count \<le> limit\<close> holds when the body
  holds at most \<open>limit\<close> items, as it does for a source that answers a request with
  \<^verbatim>\<open>records[skip:skip+limit]\<close> and a positive limit.
\<close>

theorem fetch_polls_returned_count:
  "(fetch_polls skp lmt base_url outcome = Inr (FetchSuccess sc d pg) \<longrightarrow>
      py_len d = Inr (returned_count pg) \<and> pagination.skip pg = skp \<and> limit pg = lmt \<and>
      outcome = Response 200 (Some d) \<and>
      (\<forall>n. py_len d = Inr n \<and> n \<le> lmt \<longrightarrow> returned_count pg \<le> lmt)) \<and>
   (0 < lmt \<longrightarrow>
      fetch_polls skp lmt base_url (simulated_source records k skp lmt) =
        Inr (FetchSuccess 200 (JArray (take (nat lmt) (drop (nat skp) records)))
               \<lparr>skip = skp, limit = lmt,
                returned_count = int (length (take (nat lmt) (drop (nat skp) records)))\<rparr>) \<and>
      int (length (take (nat lmt) (drop (nat skp) records))) \<le> lmt)"
proof -
  have "py_len d = Inr (returned_count pg) \<and> pagination.skip pg = skp \<and> limit pg = lmt \<and>
      outcome = Response 200 (Some d) \<and>
      (\<forall>n. py_len d = Inr n \<and> n \<le> lmt \<longrightarrow> returned_count pg \<le> lmt)"
    if "fetch_polls skp lmt base_url outcome = Inr (FetchSuccess sc d pg)"
  proof -
    from that obtain n where "py_len d = Inr n"
      "pg = \<lparr>skip = skp, limit = lmt, returned_count = n\<rparr>"
      "outcome = Response 200 (Some d)"
      unfolding fetch_polls_success_iff by blast
    then show ?thesis by simp
  qed
  moreover have "int (length (take (nat lmt) (drop (nat skp) records))) \<le> lmt" if "0 < lmt"
    using that by simp
  ultimately show ?thesis
    using fetch_polls_simulated by blast
qed

theorem fetch_polls_returned_count_witness:
  "fetch_polls 0 2 local_url (simulated_source sample_polls 0 0 2) =
     Inr (FetchSuccess 200 (JArray [poll_a, poll_b]) \<lparr>skip = 0, limit = 2, returned_count = 2\<rparr>) \<and>
   py_len (JArray [poll_a, poll_b]) = Inr 2 \<and> (0::int) < 2 \<and>
   returned_count \<lparr>skip = 0, limit = 2, returned_count = 2\<rparr> \<le> 2"
  using fetch_polls_returned_count [of 0 2 local_url "simulated_source sample_polls 0 0 2" 200
      "JArray [poll_a, poll_b]" "\<lparr>skip = 0, limit = 2, returned_count = 2\<rparr>" sample_polls 0]
  by (simp add: sample_polls_def)

text \<open>
  Claim C4 as stated fails: asked for one item, a server that answers with two gives a
  successful result whose \<open>returned_count\<close> is 2.
\<close>

theorem fetch_polls_limit_counterexample:
  "fetch_polls 0 1 local_url (Response 200 (Some (JArray [poll_a, poll_b]))) =
     Inr (FetchSuccess 200 (JArray [poll_a, poll_b]) \<lparr>skip = 0, limit = 1, returned_count = 2\<rparr>) \<and>
   \<not> returned_count \<lparr>skip = 0, limit = 1, returned_count = 2\<rparr> \<le> 1"
  by (simp add: fetch_polls_def)

text \<open>
  Claim C6, as amended. \<open>register_user\<close> returns a success carrying the decoded body when
  the status is 200 and the body is a JSON object, and only then; a status 200 response
  whose body is any other JSON value ends in the \<^verbatim>\<open>AttributeError\<close> of \<^verbatim>\<open>response_data.get\<close>.
  For status 400 and every other status than 200 it returns a failure with that status
  code and the decoded body; the two branches print different lines and return the same
  shape.
\<close>

theorem register_user_status:
  "snd (register_user repr username password base_url (Response 200 (Some (JObject kvs)))) =
     Inr (RegSuccess 200 (JObject kvs)) \<and>
   (status \<noteq> 200 \<longrightarrow>
      snd (register_user repr username password base_url (Response status (Some body))) =
        Inr (RegFailure \<lparr>status_code = Some status, error = body\<rparr>)) \<and>
   (snd (register_user repr username password base_url outcome) = Inr (RegSuccess sc d) \<longrightarrow>
      outcome = Response 200 (Some d) \<and> sc = 200 \<and> (\<exists>kvs. d = JObject kvs)) \<and>
   ((\<forall>kvs. body \<noteq> JObject kvs) \<longrightarrow>
      snd (register_user repr username password base_url (Response 200 (Some body))) =
        Inl AttributeError) \<and>
   fst (register_user repr username password base_url (Response 400 (Some body))) =
     [''Registration failed: '' @ py_str repr body] \<and>
   (status \<noteq> 200 \<and> status \<noteq> 400 \<longrightarrow>
      fst (register_user repr username password base_url (Response status (Some body))) =
        [''Unexpected status code: '' @ py_str repr (JInt status)])"
proof -
  have "snd (register_user repr username password base_url (Response 200 (Some (JObject kvs)))) =
     Inr (RegSuccess 200 (JObject kvs))"
    by (simp add: register_user_def)
  moreover have "snd (register_user repr username password base_url (Response status (Some body))) =
        Inr (RegFailure \<lparr>status_code = Some status, error = body\<rparr>)" if "status \<noteq> 200"
    using that by (simp add: register_user_def)
  moreover have "fst (register_user repr username password base_url (Response 400 (Some body))) =
     [''Registration failed: '' @ py_str repr body]"
    by (simp add: register_user_def)
  moreover have "fst (register_user repr username password base_url (Response status (Some body))) =
        [''Unexpected status code: '' @ py_str repr (JInt status)]"
    if "status \<noteq> 200 \<and> status \<noteq> 400"
    using that by (simp add: register_user_def)
  ultimately show ?thesis
    using register_user_success_only register_user_non_object by blast
qed

theorem register_user_status_witness:
  "(409::int) \<noteq> 200 \<and> (409::int) \<noteq> 400 \<and>
   snd (register_user sample_repr ''john_doe'' ''secure_password123'' local_url
          (Response 409 (Some (JString ''taken'')))) =
     Inr (RegFailure \<lparr>status_code = Some 409, error = JString ''taken''\<rparr>) \<and>
   fst (register_user sample_repr ''john_doe'' ''secure_password123'' local_url
          (Response 409 (Some (JString ''taken'')))) = [''Unexpected status code: 409''] \<and>
   fst (register_user sample_repr ''john_doe'' ''secure_password123'' local_url
          (Response 400 (Some (JString ''taken'')))) = [''Registration failed: taken''] \<and>
   (\<forall>kvs. JString ''taken'' \<noteq> JObject kvs) \<and>
   snd (register_user sample_repr ''john_doe'' ''secure_password123'' local_url
          (Response 200 (Some (JString ''taken'')))) = Inl AttributeError \<and>
   snd (register_user sample_repr ''john_doe'' ''secure_password123'' local_url
          (Response 200 (Some (JObject [(''id'', JInt 7)])))) =
     Inr (RegSuccess 200 (JObject [(''id'', JInt 7)]))"
  using register_user_status [of sample_repr "''john_doe''" "''secure_password123''" local_url
      "[(''id'', JInt 7)]" 409 "JString ''taken''"
      "Response 200 (Some (JObject [(''id'', JInt 7)]))" 200 "JObject [(''id'', JInt 7)]"]
  by simp

text \<open>
  Claim C6 as stated fails: a status 200 response whose body is a JSON array is not
  answered with a success; the \<^verbatim>\<open>AttributeError\<close> leaves \<open>register_user\<close>.
\<close>

theorem register_user_status_counterexample:
  "snd (register_user sample_repr ''john_doe'' ''secure_password123'' local_url
          (Response 200 (Some (JArray [])))) = Inl AttributeError \<and>
   snd (register_user sample_repr ''john_doe'' ''secure_password123'' local_url
          (Response 200 (Some (JArray [])))) \<noteq> Inr (RegSuccess 200 (JArray []))"
  by (simp add: register_user_def)

text \<open>
  Claim C9, as amended. A connection failure, any other exception of \<^verbatim>\<open>requests\<close>, a body
  that \<^verbatim>\<open>response.json()\<close> rejects with \<^verbatim>\<open>JSONDecodeError\<close> (whatever the status) and a
  response with a status outside 200..299 and a decoded body each come back from both
  wrappers as a failure value (\<open>Inr\<close>: nothing is raised). The first three give a failure
  without status code whose error is the message; the last gives a failure with that
  status code and that body. A decode failure that \<^verbatim>\<open>response.json()\<close> signals with another
  exception is not recovered: that exception leaves the wrapper.
\<close>

theorem faults_returned_as_failures:
  "fetch_polls skp lmt base_url ConnectionError =
     Inr (FetchFailure \<lparr>status_code = None, error = JString (connection_error_msg base_url)\<rparr>) \<and>
   fetch_polls skp lmt base_url (RequestException msg) =
     Inr (FetchFailure \<lparr>status_code = None, error = JString (request_error_msg msg)\<rparr>) \<and>
   fetch_polls skp lmt base_url (Response status None) =
     Inr (FetchFailure \<lparr>status_code = None, error = JString json_error_msg\<rparr>) \<and>
   (\<not> (200 \<le> status \<and> status \<le> 299) \<longrightarrow>
      fetch_polls skp lmt base_url (Response status (Some body)) =
        Inr (FetchFailure \<lparr>status_code = Some status, error = body\<rparr>)) \<and>
   fetch_polls skp lmt base_url (DecodeRaises status e) = Inl e \<and>
   snd (register_user repr username password base_url ConnectionError) =
     Inr (RegFailure \<lparr>status_code = None, error = JString (connection_error_msg base_url)\<rparr>) \<and>
   snd (register_user repr username password base_url (RequestException msg)) =
     Inr (RegFailure \<lparr>status_code = None, error = JString (request_error_msg msg)\<rparr>) \<and>
   snd (register_user repr username password base_url (Response status None)) =
     Inr (RegFailure \<lparr>status_code = None, error = JString json_error_msg\<rparr>) \<and>
   (\<not> (200 \<le> status \<and> status \<le> 299) \<longrightarrow>
      snd (register_user repr username password base_url (Response status (Some body))) =
        Inr (RegFailure \<lparr>status_code = Some status, error = body\<rparr>)) \<and>
   register_user repr username password base_url (DecodeRaises status e) = ([], Inl e)"
  by (auto simp: fetch_polls_def register_user_def)

theorem faults_returned_as_failures_witness:
  "\<not> (200 \<le> (404::int) \<and> (404::int) \<le> 299) \<and>
   fetch_polls 0 10 local_url (Response 404 (Some (JObject [(''detail'', JString ''Not Found'')]))) =
     Inr (FetchFailure \<lparr>status_code = Some 404,
                         error = JObject [(''detail'', JString ''Not Found'')]\<rparr>) \<and>
   snd (register_user sample_repr ''john_doe'' ''secure_password123'' local_url
          (Response 404 (Some (JObject [(''detail'', JString ''Not Found'')])))) =
     Inr (RegFailure \<lparr>status_code = Some 404,
                       error = JObject [(''detail'', JString ''Not Found'')]\<rparr>) \<and>
   fetch_polls 0 10 local_url (Response 404 None) =
     Inr (FetchFailure \<lparr>status_code = None, error = JString ''Invalid JSON response from server''\<rparr>) \<and>
   fetch_polls 0 10 local_url (RequestException ''timed out'') =
     Inr (FetchFailure \<lparr>status_code = None, error = JString ''Request failed: timed out''\<rparr>) \<and>
   fetch_polls 0 10 local_url (DecodeRaises 404 RecursionError) = Inl RecursionError"
  using faults_returned_as_failures [where skp = 0 and lmt = 10 and base_url = local_url
      and status = 404 and body = "JObject [(''detail'', JString ''Not Found'')]"
      and repr = sample_repr and username = "''john_doe''" and password = "''secure_password123''"
      and msg = "''timed out''" and e = RecursionError]
  by (simp add: json_error_msg_def request_error_msg_def)

text \<open>
  Claim C9 as stated fails: a status 200 response whose body holds an integer literal
  beyond the decoder's digit limit makes \<^verbatim>\<open>response.json()\<close> raise a plain \<^verbatim>\<open>ValueError\<close>,
  and one whose body is nested too deep a \<^verbatim>\<open>RecursionError\<close>; neither is caught, and the
  decode failure leaves the wrapper as an exception.
\<close>

theorem decode_fault_escapes_counterexample:
  "fetch_polls 0 10 local_url (DecodeRaises 200 ValueError) = Inl ValueError \<and>
   snd (register_user sample_repr ''john_doe'' ''secure_password123'' local_url
          (DecodeRaises 200 RecursionError)) = Inl RecursionError"
  by (simp add: fetch_polls_def register_user_def)

lemma loop_body_Done_failure:
  assumes "loop_body transport base_url page_sz max_polls st = Done k (Inr (AggFailure f))"
  shows "\<exists>cl. current_limit page_sz max_polls (total_fetched st) = Some cl \<and>
     fetch_polls (cur_skip st) cl base_url (transport (requests st) (cur_skip st) cl)
       = Inr (FetchFailure f)"
  using assms
  by (auto simp: loop_body_def finish_def Let_def
           split: option.splits sum.splits fetch_result.splits if_splits)

lemma loop_result:
  assumes "fetch_all_polls transport base_url page_sz max_polls = Some r"
  shows "\<exists>st k. reachable transport base_url page_sz max_polls st \<and>
     loop_body transport base_url page_sz max_polls st = Done k r"
proof -
  from assms obtain k where
    "fetch_all_loop transport base_url page_sz max_polls initial_state = Some (k, r)"
    by (auto simp: fetch_all_polls_def)
  from loop_result_from [OF this] reachable_init show ?thesis by fastforce
qed

lemma simulated_complete:
  assumes "1 \<le> page_sz"
  shows "fetch_all_polls (simulated_source records) base_url page_sz max_polls =
     Some (finish page_sz
       \<lparr>all_polls = take (expected_total records max_polls) records,
        cur_skip = int (expected_total records max_polls),
        total_fetched = int (expected_total records max_polls),
        requests = 0\<rparr>)"
  using simulated_run [OF assms, of initial_state 0 records max_polls base_url]
  by (simp add: fetch_all_polls_def initial_state_def)

lemma simulated_bounded:
  assumes "0 \<le> m"
  shows "reachable (simulated_source records) base_url page_sz (Some m) st \<Longrightarrow>
     total_fetched st \<le> m"
proof (induction rule: reachable.induct)
  case reachable_init
  show ?case using assms by (simp add: initial_state_def)
next
  case (reachable_step st st')
  from reachable_step.hyps(2) obtain cl where
    cl: "current_limit page_sz (Some m) (total_fetched st) = Some cl"
    and st': "total_fetched st' =
      total_fetched st + int (length (take (nat cl) (drop (nat (cur_skip st)) records)))"
    by (auto simp: loop_body_simulated Let_def split: option.splits if_splits)
  from cl have "cl \<le> m - total_fetched st"
    by (auto simp: current_limit_def Let_def split: if_splits)
  moreover have "int (length (take (nat cl) (drop (nat (cur_skip st)) records))) \<le> max 0 cl"
    by simp
  ultimately show ?case using st' reachable_step.IH by arith
qed

section \<open>The aggregation loop\<close>

text \<open>
  Claim C1. Against a simulated source that holds the records \<open>records\<close> and answers each
  request with the slice \<^verbatim>\<open>records[skip:skip+limit]\<close>, \<open>fetch_all_polls\<close> with a page size of
  at least 1 and no \<^verbatim>\<open>max_polls\<close> leaves the loop and returns a success whose data is the
  whole record list in its order and whose \<open>total_count\<close> is the number of records.
\<close>

theorem fetch_all_polls_complete:
  assumes "1 \<le> page_sz"
  shows "fetch_all_polls (simulated_source records) base_url page_sz None =
     Some (Inr (AggSuccess records (int (length records))
       \<lparr>page_size = page_sz,
        total_requests = int (length records) div page_sz
          + (if int (length records) mod page_sz > 0 then 1 else 0)\<rparr>))"
  using assms simulated_complete [OF assms, of records base_url None]
  by (simp add: expected_total_def finish_def)

theorem fetch_all_polls_complete_witness:
  "(1::int) \<le> 2 \<and>
   fetch_all_polls (simulated_source sample_polls) local_url 2 None =
     Some (Inr (AggSuccess sample_polls 3 \<lparr>page_size = 2, total_requests = 2\<rparr>))"
  using fetch_all_polls_complete [of 2 sample_polls local_url]
  by (simp add: sample_polls_def)

text \<open>
  Claim C2. Against the simulated source with more records than a positive \<^verbatim>\<open>max_polls\<close>
  \<open>m\<close>, and any page size of at least 1: the run returns exactly the first \<open>m\<close> records;
  at the start of every iteration the accumulated list and \<open>total_fetched\<close> are at most
  \<open>m\<close>; the limit of each request is \<open>min page_size (m - total_fetched)\<close>; and an iteration
  that finds this remainder at or below zero leaves the loop with the normal result, without
  a request.
\<close>

theorem fetch_all_polls_max_polls:
  assumes "1 \<le> page_sz" and "0 < m" and "m < int (length records)"
  shows "fetch_all_polls (simulated_source records) base_url page_sz (Some m) =
       Some (Inr (AggSuccess (take (nat m) records) m
         \<lparr>page_size = page_sz,
          total_requests = m div page_sz + (if m mod page_sz > 0 then 1 else 0)\<rparr>)) \<and>
     length (take (nat m) records) = nat m \<and>
     (\<forall>st. reachable (simulated_source records) base_url page_sz (Some m) st \<longrightarrow>
        int (length (all_polls st)) \<le> m \<and> total_fetched st \<le> m) \<and>
     (\<forall>st. current_limit page_sz (Some m) (total_fetched st) =
        (if m - total_fetched st \<le> 0 then None else Some (min page_sz (m - total_fetched st)))) \<and>
     (\<forall>transport st. m - total_fetched st \<le> 0 \<longrightarrow>
        loop_body transport base_url page_sz (Some m) st = Done (requests st) (finish page_sz st))"
proof -
  have et: "expected_total records (Some m) = nat m"
    using assms by (simp add: expected_total_def)
  have c1: "fetch_all_polls (simulated_source records) base_url page_sz (Some m) =
       Some (Inr (AggSuccess (take (nat m) records) m
         \<lparr>page_size = page_sz,
          total_requests = m div page_sz + (if m mod page_sz > 0 then 1 else 0)\<rparr>))"
    using assms simulated_complete [OF assms(1), of records base_url "Some m"]
    by (simp add: et finish_def)
  have c2: "length (take (nat m) records) = nat m"
    using assms by simp
  have c3: "\<forall>st. reachable (simulated_source records) base_url page_sz (Some m) st \<longrightarrow>
        int (length (all_polls st)) \<le> m \<and> total_fetched st \<le> m"
  proof (intro allI impI)
    fix st
    assume r: "reachable (simulated_source records) base_url page_sz (Some m) st"
    have "0 \<le> m" using assms(2) by simp
    from simulated_bounded [OF this r] reachable_invariant [OF r]
    show "int (length (all_polls st)) \<le> m \<and> total_fetched st \<le> m" by simp
  qed
  have c4: "\<forall>st. current_limit page_sz (Some m) (total_fetched st) =
        (if m - total_fetched st \<le> 0 then None else Some (min page_sz (m - total_fetched st)))"
    by (simp add: current_limit_def Let_def)
  have c5: "\<forall>transport st. m - total_fetched st \<le> 0 \<longrightarrow>
        loop_body transport base_url page_sz (Some m) st = Done (requests st) (finish page_sz st)"
    by (simp add: loop_body_def current_limit_def Let_def)
  show ?thesis
    using c1 c2 c3 c4 c5 by (intro conjI)
qed

theorem fetch_all_polls_max_polls_witness:
  "(1::int) \<le> 5 \<and> (0::int) < 2 \<and> 2 < int (length sample_polls) \<and>
   fetch_all_polls (simulated_source sample_polls) local_url 5 (Some 2) =
     Some (Inr (AggSuccess [poll_a, poll_b] 2 \<lparr>page_size = 5, total_requests = 1\<rparr>)) \<and>
   reachable (simulated_source sample_polls) local_url 5 (Some 2) initial_state \<and>
   int (length (all_polls initial_state)) \<le> 2 \<and>
   current_limit 5 (Some 2) (total_fetched initial_state) = Some 2"
proof -
  have h: "(1::int) \<le> 5" "(0::int) < 2" "2 < int (length sample_polls)"
    by (simp_all add: sample_polls_def)
  have r: "reachable (simulated_source sample_polls) local_url 5 (Some 2) initial_state"
    by (rule reachable_init)
  from fetch_all_polls_max_polls [OF h, of local_url]
  have "fetch_all_polls (simulated_source sample_polls) local_url 5 (Some 2) =
       Some (Inr (AggSuccess (take (nat 2) sample_polls) 2
         \<lparr>page_size = 5, total_requests = 2 div 5 + (if (2::int) mod 5 > 0 then 1 else 0)\<rparr>))"
    and "int (length (all_polls initial_state)) \<le> 2"
    and "current_limit 5 (Some 2) (total_fetched initial_state) =
        (if 2 - total_fetched initial_state \<le> 0 then None
         else Some (min 5 (2 - total_fetched initial_state)))"
    using r by blast+
  then show ?thesis
    using h r by (simp add: sample_polls_def initial_state_def)
qed

text \<open>
  Claim C3. When a request that the loop makes (in a state it reaches, with the limit it
  computes there) comes back from \<open>fetch_polls\<close> as a failure, \<open>fetch_all_polls\<close> returns
  that very failure record and nothing of what it had accumulated; and a failure is
  returned in no other way. The transport is arbitrary, so this covers every sequence of
  page responses.
\<close>

theorem failure_propagated_unchanged:
  "(reachable transport base_url page_sz max_polls st \<and>
    current_limit page_sz max_polls (total_fetched st) = Some cl \<and>
    fetch_polls (cur_skip st) cl base_url (transport (requests st) (cur_skip st) cl)
      = Inr (FetchFailure f)
    \<longrightarrow> fetch_all_polls transport base_url page_sz max_polls = Some (Inr (AggFailure f))) \<and>
   (fetch_all_polls transport base_url page_sz max_polls = Some (Inr (AggFailure f))
    \<longrightarrow> (\<exists>st cl. reachable transport base_url page_sz max_polls st \<and>
          current_limit page_sz max_polls (total_fetched st) = Some cl \<and>
          fetch_polls (cur_skip st) cl base_url (transport (requests st) (cur_skip st) cl)
            = Inr (FetchFailure f)))"
proof (rule conjI; rule impI)
  assume a: "reachable transport base_url page_sz max_polls st \<and>
    current_limit page_sz max_polls (total_fetched st) = Some cl \<and>
    fetch_polls (cur_skip st) cl base_url (transport (requests st) (cur_skip st) cl)
      = Inr (FetchFailure f)"
  then have "loop_body transport base_url page_sz max_polls st =
      Done (Suc (requests st)) (Inr (AggFailure f))"
    by (simp add: loop_body_failure)
  with a have "fetch_all_loop transport base_url page_sz max_polls initial_state =
      Some (Suc (requests st), Inr (AggFailure f))"
    using reachable_Done by blast
  then show "fetch_all_polls transport base_url page_sz max_polls = Some (Inr (AggFailure f))"
    by (simp add: fetch_all_polls_def)
next
  assume "fetch_all_polls transport base_url page_sz max_polls = Some (Inr (AggFailure f))"
  then obtain st k where "reachable transport base_url page_sz max_polls st"
    "loop_body transport base_url page_sz max_polls st = Done k (Inr (AggFailure f))"
    using loop_result by blast
  then show "\<exists>st cl. reachable transport base_url page_sz max_polls st \<and>
          current_limit page_sz max_polls (total_fetched st) = Some cl \<and>
          fetch_polls (cur_skip st) cl base_url (transport (requests st) (cur_skip st) cl)
            = Inr (FetchFailure f)"
    using loop_body_Done_failure by blast
qed

theorem failure_propagated_unchanged_witness:
  "reachable (dropping_source sample_polls) local_url 2 None
     \<lparr>all_polls = [poll_a, poll_b], cur_skip = 2, total_fetched = 2, requests = 1\<rparr> \<and>
   current_limit 2 None 2 = Some 2 \<and>
   fetch_polls 2 2 local_url (dropping_source sample_polls 1 2 2) =
     Inr (FetchFailure \<lparr>status_code = None, error = JString (connection_error_msg local_url)\<rparr>) \<and>
   fetch_all_polls (dropping_source sample_polls) local_url 2 None =
     Some (Inr (AggFailure \<lparr>status_code = None, error = JString (connection_error_msg local_url)\<rparr>))"
proof -
  let ?st = "\<lparr>all_polls = [poll_a, poll_b], cur_skip = 2, total_fetched = 2, requests = 1\<rparr>"
  have "loop_body (dropping_source sample_polls) local_url 2 None initial_state = Next ?st"
    by (simp add: loop_body_def current_limit_def initial_state_def dropping_source_def
          simulated_source_def fetch_polls_def sample_polls_def)
  then have r: "reachable (dropping_source sample_polls) local_url 2 None ?st"
    using reachable_init reachable_step by blast
  have c: "current_limit 2 None 2 = Some 2"
    by (simp add: current_limit_def)
  have f: "fetch_polls 2 2 local_url (dropping_source sample_polls 1 2 2) =
     Inr (FetchFailure \<lparr>status_code = None, error = JString (connection_error_msg local_url)\<rparr>)"
    by (simp add: dropping_source_def fetch_polls_def)
  show ?thesis
    using r c f
      failure_propagated_unchanged [of "dropping_source sample_polls" local_url 2 None ?st 2
        "\<lparr>status_code = None, error = JString (connection_error_msg local_url)\<rparr>"]
    by simp
qed

text \<open>
  Claim C5. In every state in which an iteration starts, \<open>skip\<close> equals \<open>total_fetched\<close>
  (and the length of the accumulated list). An iteration that goes on to another one has
  advanced both by the \<open>returned_count\<close> of its page, the number of items the page holds,
  which is positive and at least the limit that was requested: the next request starts
  beyond the positions this one asked for.
\<close>

theorem skip_equals_total_fetched:
  assumes "reachable transport base_url page_sz max_polls st"
  shows "cur_skip st = total_fetched st \<and> total_fetched st = int (length (all_polls st)) \<and>
     (\<forall>st'. loop_body transport base_url page_sz max_polls st = Next st' \<longrightarrow>
        (\<exists>cl sc d pg.
           current_limit page_sz max_polls (total_fetched st) = Some cl \<and>
           fetch_polls (cur_skip st) cl base_url (transport (requests st) (cur_skip st) cl)
             = Inr (FetchSuccess sc d pg) \<and>
           py_len d = Inr (returned_count pg) \<and>
           cur_skip st' = cur_skip st + returned_count pg \<and>
           total_fetched st' = total_fetched st + returned_count pg \<and>
           cur_skip st' = total_fetched st' \<and>
           0 < returned_count pg \<and> cur_skip st + cl \<le> cur_skip st'))"
proof -
  have inv: "cur_skip st = total_fetched st" "total_fetched st = int (length (all_polls st))"
    using reachable_invariant [OF assms] by simp_all
  have "\<exists>cl sc d pg.
           current_limit page_sz max_polls (total_fetched st) = Some cl \<and>
           fetch_polls (cur_skip st) cl base_url (transport (requests st) (cur_skip st) cl)
             = Inr (FetchSuccess sc d pg) \<and>
           py_len d = Inr (returned_count pg) \<and>
           cur_skip st' = cur_skip st + returned_count pg \<and>
           total_fetched st' = total_fetched st + returned_count pg \<and>
           cur_skip st' = total_fetched st' \<and>
           0 < returned_count pg \<and> cur_skip st + cl \<le> cur_skip st'"
    if "loop_body transport base_url page_sz max_polls st = Next st'" for st'
  proof -
    from that obtain cl sc d and pg :: pagination and items where
      n: "current_limit page_sz max_polls (total_fetched st) = Some cl"
      "fetch_polls (cur_skip st) cl base_url (transport (requests st) (cur_skip st) cl)
          = Inr (FetchSuccess sc d pg)"
      "py_truthy d" "py_len d = Inr (returned_count pg)" "cl \<le> returned_count pg"
      and st': "st' = \<lparr>all_polls = all_polls st @ items,
               cur_skip = cur_skip st + returned_count pg,
               total_fetched = total_fetched st + returned_count pg,
               requests = Suc (requests st)\<rparr>"
      unfolding loop_body_Next by blast
    have "0 < returned_count pg" using n py_len_truthy by blast
    with n st' inv show ?thesis by auto
  qed
  with inv show ?thesis by blast
qed

theorem skip_equals_total_fetched_witness:
  "reachable (simulated_source sample_polls) local_url 2 None initial_state \<and>
   loop_body (simulated_source sample_polls) local_url 2 None initial_state =
     Next \<lparr>all_polls = [poll_a, poll_b], cur_skip = 2, total_fetched = 2, requests = 1\<rparr> \<and>
   cur_skip initial_state = total_fetched initial_state \<and>
   (\<exists>pg. fetch_polls 0 2 local_url (simulated_source sample_polls 0 0 2)
            = Inr (FetchSuccess 200 (JArray [poll_a, poll_b]) pg) \<and>
         (2::int) = 0 + returned_count pg)"
proof -
  let ?st = "\<lparr>all_polls = [poll_a, poll_b], cur_skip = 2, total_fetched = 2, requests = 1\<rparr>"
  have n: "loop_body (simulated_source sample_polls) local_url 2 None initial_state = Next ?st"
    by (simp add: loop_body_def current_limit_def initial_state_def
          simulated_source_def fetch_polls_def sample_polls_def)
  have r: "reachable (simulated_source sample_polls) local_url 2 None initial_state"
    by (rule reachable_init)
  from skip_equals_total_fetched [OF r] n
  obtain cl sc d and pg :: pagination where
    e: "cur_skip initial_state = total_fetched initial_state"
    and c: "current_limit 2 None (total_fetched initial_state) = Some cl"
    and f: "fetch_polls (cur_skip initial_state) cl local_url
        (simulated_source sample_polls (requests initial_state) (cur_skip initial_state) cl)
        = Inr (FetchSuccess sc d pg)"
    and s: "cur_skip ?st = cur_skip initial_state + returned_count pg"
    by blast
  from c have "cl = 2" by (simp add: current_limit_def)
  with f have "fetch_polls 0 2 local_url (simulated_source sample_polls 0 0 2)
            = Inr (FetchSuccess 200 (JArray [poll_a, poll_b]) pg)"
    by (simp add: initial_state_def fetch_polls_simulated sample_polls_def)
  moreover from s have "(2::int) = 0 + returned_count pg"
    by (simp add: initial_state_def)
  ultimately show ?thesis using n r e by blast
qed

text \<open>
  Claim C10. For a positive page size, every successful result of \<open>fetch_all_polls\<close>
  reports as \<open>total_requests\<close> the ceiling of \<open>total_count / page_size\<close>. When the first
  request is answered with an empty list, that number is 0 although one request was made.
\<close>

theorem total_requests_ceiling:
  assumes "0 < page_sz"
  shows "(fetch_all_polls transport base_url page_sz max_polls =
            Some (Inr (AggSuccess d tc pinfo)) \<longrightarrow>
          total_requests pinfo = \<lceil>real_of_int tc / real_of_int page_sz\<rceil> \<and>
          page_size pinfo = page_sz) \<and>
     (current_limit page_sz max_polls 0 = Some cl \<and>
      transport 0 0 cl = Response 200 (Some (JArray [])) \<longrightarrow>
        fetch_all_polls transport base_url page_sz max_polls =
          Some (Inr (AggSuccess [] 0 \<lparr>page_size = page_sz, total_requests = 0\<rparr>)) \<and>
        requests_issued transport base_url page_sz max_polls = Some 1)"
proof (rule conjI; rule impI)
  assume "fetch_all_polls transport base_url page_sz max_polls =
            Some (Inr (AggSuccess d tc pinfo))"
  then obtain st k where r: "reachable transport base_url page_sz max_polls st"
    and b: "loop_body transport base_url page_sz max_polls st = Done k (Inr (AggSuccess d tc pinfo))"
    using loop_result by blast
  have "cur_skip st = total_fetched st"
    using reachable_invariant [OF r] by simp
  from loop_body_Done_success [OF b this]
  have "pinfo = \<lparr>page_size = page_sz,
               total_requests = tc div page_sz + (if tc mod page_sz > 0 then 1 else 0)\<rparr>"
    by simp
  then show "total_requests pinfo = \<lceil>real_of_int tc / real_of_int page_sz\<rceil> \<and>
          page_size pinfo = page_sz"
    using ceiling_div_int [OF assms, of tc] by simp
next
  assume a: "current_limit page_sz max_polls 0 = Some cl \<and>
      transport 0 0 cl = Response 200 (Some (JArray []))"
  then have "loop_body transport base_url page_sz max_polls initial_state =
      Done 1 (Inr (AggSuccess [] 0 \<lparr>page_size = page_sz, total_requests = 0\<rparr>))"
    using assms
    by (simp add: loop_body_def initial_state_def fetch_polls_def finish_def)
  then have "fetch_all_loop transport base_url page_sz max_polls initial_state =
      Some (1, Inr (AggSuccess [] 0 \<lparr>page_size = page_sz, total_requests = 0\<rparr>))"
    using reachable_Done [OF reachable_init] by blast
  then show "fetch_all_polls transport base_url page_sz max_polls =
          Some (Inr (AggSuccess [] 0 \<lparr>page_size = page_sz, total_requests = 0\<rparr>)) \<and>
        requests_issued transport base_url page_sz max_polls = Some 1"
    by (simp add: fetch_all_polls_def requests_issued_def)
qed

theorem total_requests_ceiling_witness:
  "(0::int) < 2 \<and>
   fetch_all_polls (simulated_source sample_polls) local_url 2 None =
     Some (Inr (AggSuccess sample_polls 3 \<lparr>page_size = 2, total_requests = 2\<rparr>)) \<and>
   total_requests \<lparr>page_size = 2, total_requests = 2\<rparr> = \<lceil>real_of_int 3 / real_of_int 2\<rceil> \<and>
   current_limit 10 None 0 = Some 10 \<and>
   simulated_source [] 0 0 10 = Response 200 (Some (JArray [])) \<and>
   fetch_all_polls (simulated_source []) local_url 10 None =
     Some (Inr (AggSuccess [] 0 \<lparr>page_size = 10, total_requests = 0\<rparr>)) \<and>
   requests_issued (simulated_source []) local_url 10 None = Some 1"
proof -
  have s: "fetch_all_polls (simulated_source sample_polls) local_url 2 None =
     Some (Inr (AggSuccess sample_polls 3 \<lparr>page_size = 2, total_requests = 2\<rparr>))"
    using simulated_complete [of 2 sample_polls local_url None]
    by (simp add: expected_total_def finish_def sample_polls_def)
  have c: "current_limit 10 None 0 = Some 10"
    by (simp add: current_limit_def)
  have e: "simulated_source [] 0 0 10 = Response 200 (Some (JArray []))"
    by (simp add: simulated_source_def)
  have p2: "(0::int) < 2" and p10: "(0::int) < 10" by simp_all
  from total_requests_ceiling [OF p2, of "simulated_source sample_polls" local_url None
      sample_polls 3 "\<lparr>page_size = 2, total_requests = 2\<rparr>"] s
  have "total_requests \<lparr>page_size = 2, total_requests = 2\<rparr> = \<lceil>real_of_int 3 / real_of_int 2\<rceil>"
    by blast
  moreover from total_requests_ceiling [OF p10, of "simulated_source []" local_url None
      d tc pinfo 10] c e
  have "fetch_all_polls (simulated_source []) local_url 10 None =
     Some (Inr (AggSuccess [] 0 \<lparr>page_size = 10, total_requests = 0\<rparr>)) \<and>
   requests_issued (simulated_source []) local_url 10 None = Some 1"
    by blast
  ultimately show ?thesis using s c e by simp
qed

section \<open>Facts about the formatter\<close>

lemma out_bind_eval_Inr [simp]: "out_bind (out_eval (Inr x)) f = f x"
  by (simp add: out_bind_def out_eval_def)

lemma out_bind_eval_Inl [simp]: "out_bind (out_eval (Inl e)) f = ([], Inl e)"
  by (simp add: out_bind_def out_eval_def)

lemma out_bind_print [simp]: "out_bind (out_print l) f = (l # fst (f ()), snd (f ()))"
  by (simp add: out_bind_def out_print_def)

lemma fst_out_print [simp]: "fst (out_print l) = [l]"
  by (simp add: out_print_def)

lemma snd_out_print [simp]: "snd (out_print l) = Inr ()"
  by (simp add: out_print_def)

lemma out_bind_then_print:
  "out_bind part (\<lambda>_. out_print l) =
     (fst part @ (case snd part of Inl e \<Rightarrow> [] | Inr u \<Rightarrow> [l]), snd part)"
  by (cases "snd part") (simp_all add: out_bind_def)



lemma fst_out_bind:
  "fst (out_bind m f) = (case snd m of Inl e \<Rightarrow> fst m | Inr x \<Rightarrow> fst m @ fst (f x))"
  by (simp add: out_bind_def split: sum.splits)

lemma formatted_date_dict:
  "formatted_date fromisoformat strftime (JObject kvs) =
     (case map_of kvs ''created_at'' of
        None \<Rightarrow> Inr (JString ''Unknown'')
      | Some v \<Rightarrow>
          (case py_replace_Z v of
             Inl e \<Rightarrow> Inl AttributeError
           | Inr s \<Rightarrow>
               (case fromisoformat s of
                  None \<Rightarrow> Inr v
                | Some created_at \<Rightarrow> Inr (JString (strftime created_at)))))"
proof (cases "map_of kvs ''created_at''")
  case None
  then show ?thesis by (simp add: formatted_date_def)
next
  case (Some v)
  then show ?thesis
    by (cases v) (simp_all add: formatted_date_def split: option.splits)
qed

lemma formatted_date_not_dict:
  "\<not> is_dict poll \<Longrightarrow> formatted_date fromisoformat strftime poll = Inl TypeError"
  by (cases poll) (simp_all add: formatted_date_def)

lemma formatted_date_ok:
  "(\<exists>d. formatted_date fromisoformat strftime (JObject kvs) = Inr d) \<longleftrightarrow>
     (case map_of kvs ''created_at'' of None \<Rightarrow> True | Some v \<Rightarrow> is_str v)"
proof (cases "map_of kvs ''created_at''")
  case None
  then show ?thesis by (simp add: formatted_date_dict)
next
  case (Some v)
  then show ?thesis
    by (cases v) (simp_all add: formatted_date_dict split: option.splits)
qed

lemma option_lines_ok:
  "snd (option_lines repr i items) = Inr () \<longleftrightarrow> list_all is_dict items"
proof (induction items arbitrary: i)
  case Nil
  show ?case by simp
next
  case (Cons opt rest)
  show ?case
  proof (cases "is_dict opt")
    case True
    then obtain kvs where "opt = JObject kvs" by (cases opt) simp_all
    then show ?thesis using Cons.IH by simp
  next
    case False
    then have "py_get opt ''text'' (JString ''N/A'') = Inl AttributeError"
      by (cases opt) simp_all
    with False show ?thesis by simp
  qed
qed

lemma options_part_ok:
  "snd (if py_truthy opts then
          out_bind (out_print ''Options:'') (\<lambda>_.
          out_bind (out_eval (py_iter opts)) (\<lambda>items.
          option_lines repr 1 items))
        else out_print ''Options: None'') = Inr ()
   \<longleftrightarrow> \<not> py_truthy opts \<or> is_list_of_dicts opts"
proof (cases "py_truthy opts")
  case False
  then show ?thesis by simp
next
  case True
  show ?thesis
  proof (cases opts)
    case (JArray xs)
    with True show ?thesis by (simp add: option_lines_ok)
  next
    case (JObject kvs)
    with True obtain kv rest where "kvs = kv # rest" by (cases kvs) auto
    with JObject show ?thesis by simp
  next
    case (JString s)
    with True obtain c rest where "s = c # rest" by (cases s) auto
    with JString show ?thesis by simp
  qed (use True in simp_all)
qed

lemma display_poll_dict:
  "display_poll fromisoformat strftime repr (JObject kvs) =
     (case formatted_date fromisoformat strftime (JObject kvs) of
        Inl e \<Rightarrow> ([], Inl e)
      | Inr fdate \<Rightarrow>
          (let options = (case map_of kvs ''options'' of None \<Rightarrow> JArray [] | Some v \<Rightarrow> v);
               part = (if py_truthy options then
                         out_bind (out_print ''Options:'') (\<lambda>_.
                         out_bind (out_eval (py_iter options)) (\<lambda>items.
                         option_lines repr 1 items))
                       else out_print ''Options: None'')
           in ([CHR 0x0A # ''Poll ID: ''
                  @ py_str repr (case map_of kvs ''id'' of None \<Rightarrow> JString ''N/A'' | Some v \<Rightarrow> v),
                ''Question: ''
                  @ py_str repr (case map_of kvs ''question'' of None \<Rightarrow> JString ''N/A'' | Some v \<Rightarrow> v),
                ''Owner ID: ''
                  @ py_str repr (case map_of kvs ''owner_id'' of None \<Rightarrow> JString ''N/A'' | Some v \<Rightarrow> v),
                ''Created: '' @ py_str repr fdate]
               @ fst part @ (case snd part of Inl e \<Rightarrow> [] | Inr u \<Rightarrow> [replicate 40 (CHR ''-'')]),
               snd part)))"
  by (simp add: display_poll_def Let_def out_bind_then_print split: sum.splits)

lemma display_poll_ok:
  "snd (display_poll fromisoformat strftime repr poll) = Inr () \<longleftrightarrow> displayable poll"
proof (cases "is_dict poll")
  case False
  then have "snd (display_poll fromisoformat strftime repr poll) = Inl TypeError"
    by (simp add: display_poll_def formatted_date_not_dict)
  moreover have "\<not> displayable poll" using False by (cases poll) simp_all
  ultimately show ?thesis by simp
next
  case True
  then obtain kvs where p: "poll = JObject kvs" by (cases poll) simp_all
  show ?thesis
  proof (cases "formatted_date fromisoformat strftime (JObject kvs)")
    case (Inl e)
    then have "\<not> (case map_of kvs ''created_at'' of None \<Rightarrow> True | Some v \<Rightarrow> is_str v)"
      using formatted_date_ok [of fromisoformat strftime kvs] by simp
    then show ?thesis using p Inl by (simp add: display_poll_dict)
  next
    case (Inr fdate)
    then have "case map_of kvs ''created_at'' of None \<Rightarrow> True | Some v \<Rightarrow> is_str v"
      using formatted_date_ok [of fromisoformat strftime kvs] by blast
    then show ?thesis
      using p Inr options_part_ok [of _ repr]
      by (simp add: display_poll_dict Let_def split: option.splits)
  qed
qed



lemma poll_lines_append:
  assumes "list_all displayable pre"
  shows "poll_lines fromisoformat strftime repr (pre @ post) =
     (fst (poll_lines fromisoformat strftime repr pre)
        @ fst (poll_lines fromisoformat strftime repr post),
      snd (poll_lines fromisoformat strftime repr post))"
  using assms
proof (induction pre)
  case Nil
  show ?case by simp
next
  case (Cons p pre)
  then have "snd (display_poll fromisoformat strftime repr p) = Inr ()"
    by (simp add: display_poll_ok)
  with Cons show ?case by (simp add: out_bind_def)
qed

lemma display_polls_lines:
  assumes "list_all displayable pre"
  shows "fst (display_polls fromisoformat strftime repr (pre @ poll # post)) =
     [CHR 0x0A # ''Displaying ''
        @ py_str repr (JInt (int (length (pre @ poll # post)))) @ '' polls:'',
      replicate 60 (CHR ''='')]
     @ fst (poll_lines fromisoformat strftime repr pre)
     @ fst (display_poll fromisoformat strftime repr poll)
     @ (case snd (display_poll fromisoformat strftime repr poll) of
          Inl e \<Rightarrow> []
        | Inr u \<Rightarrow> fst (poll_lines fromisoformat strftime repr post))"
  by (simp add: display_polls_def poll_lines_append [OF assms] fst_out_bind split: sum.splits)

section \<open>The formatter\<close>




text \<open>
  Claim C8. For a record (a dict) whose \<^verbatim>\<open>created_at\<close> is a string that does not parse, the
  date falls back to that string without an exception and the fourth line of the record
  shows it unchanged. For a record whose \<^verbatim>\<open>created_at\<close> is absent or a string and whose
  \<^verbatim>\<open>options\<close> is the empty list, the record is printed without an exception and ends with
  the line \<^verbatim>\<open>Options: None\<close> and the rule. The lines of a record appear as they are in the
  output of \<open>display_polls\<close>, after the lines of the records before it.
\<close>

theorem display_poll_fallbacks:
  "(map_of kvs ''created_at'' = Some (JString s) \<and> fromisoformat (replace_Z s) = None \<longrightarrow>
      formatted_date fromisoformat strftime (JObject kvs) = Inr (JString s) \<and>
      4 \<le> length (fst (display_poll fromisoformat strftime repr (JObject kvs))) \<and>
      fst (display_poll fromisoformat strftime repr (JObject kvs)) ! 3 = ''Created: '' @ s) \<and>
   ((case map_of kvs ''created_at'' of None \<Rightarrow> True | Some v \<Rightarrow> is_str v) \<and>
    map_of kvs ''options'' = Some (JArray []) \<longrightarrow>
      snd (display_poll fromisoformat strftime repr (JObject kvs)) = Inr () \<and>
      drop 4 (fst (display_poll fromisoformat strftime repr (JObject kvs)))
        = [''Options: None'', replicate 40 (CHR ''-'')]) \<and>
   (list_all displayable pre \<longrightarrow>
      fst (display_polls fromisoformat strftime repr (pre @ poll # post)) =
        [CHR 0x0A # ''Displaying ''
           @ py_str repr (JInt (int (length (pre @ poll # post)))) @ '' polls:'',
         replicate 60 (CHR ''='')]
        @ fst (poll_lines fromisoformat strftime repr pre)
        @ fst (display_poll fromisoformat strftime repr poll)
        @ (case snd (display_poll fromisoformat strftime repr poll) of
             Inl e \<Rightarrow> []
           | Inr u \<Rightarrow> fst (poll_lines fromisoformat strftime repr post)))"
proof -
  have c1: "formatted_date fromisoformat strftime (JObject kvs) = Inr (JString s) \<and>
      4 \<le> length (fst (display_poll fromisoformat strftime repr (JObject kvs))) \<and>
      fst (display_poll fromisoformat strftime repr (JObject kvs)) ! 3 = ''Created: '' @ s"
    if "map_of kvs ''created_at'' = Some (JString s) \<and> fromisoformat (replace_Z s) = None"
  proof -
    from that have f: "formatted_date fromisoformat strftime (JObject kvs) = Inr (JString s)"
      by (simp add: formatted_date_dict)
    then show ?thesis by (simp add: display_poll_dict Let_def)
  qed
  have c2: "snd (display_poll fromisoformat strftime repr (JObject kvs)) = Inr () \<and>
      drop 4 (fst (display_poll fromisoformat strftime repr (JObject kvs)))
        = [''Options: None'', replicate 40 (CHR ''-'')]"
    if "(case map_of kvs ''created_at'' of None \<Rightarrow> True | Some v \<Rightarrow> is_str v) \<and>
        map_of kvs ''options'' = Some (JArray [])"
  proof -
    from that obtain fdate where
      f: "formatted_date fromisoformat strftime (JObject kvs) = Inr fdate"
      using formatted_date_ok [of fromisoformat strftime kvs] by auto
    with that show ?thesis by (simp add: display_poll_dict Let_def)
  qed
  show ?thesis
    using c1 c2 display_polls_lines [of pre fromisoformat strftime repr poll post]
    by (intro conjI impI) blast+
qed

theorem display_poll_fallbacks_witness:
  "map_of [(''id'', JInt 2), (''created_at'', JString ''yesterday''), (''options'', JArray [])]
     ''created_at'' = Some (JString ''yesterday'') \<and>
   sample_fromisoformat (replace_Z ''yesterday'') = None \<and>
   formatted_date sample_fromisoformat sample_strftime
     (JObject [(''id'', JInt 2), (''created_at'', JString ''yesterday''), (''options'', JArray [])])
     = Inr (JString ''yesterday'') \<and>
   fst (display_poll sample_fromisoformat sample_strftime sample_repr
     (JObject [(''id'', JInt 2), (''created_at'', JString ''yesterday''), (''options'', JArray [])])) ! 3
     = ''Created: yesterday'' \<and>
   map_of [(''id'', JInt 2), (''created_at'', JString ''yesterday''), (''options'', JArray [])]
     ''options'' = Some (JArray []) \<and>
   drop 4 (fst (display_poll sample_fromisoformat sample_strftime sample_repr
     (JObject [(''id'', JInt 2), (''created_at'', JString ''yesterday''), (''options'', JArray [])])))
     = [''Options: None'', replicate 40 (CHR ''-'')] \<and>
   list_all displayable [poll_a] \<and>
   take 2 (fst (display_polls sample_fromisoformat sample_strftime sample_repr
                  ([poll_a] @ poll_b # [poll_c])))
     = [CHR 0x0A # ''Displaying 3 polls:'', replicate 60 (CHR ''='')]"
proof -
  let ?kvs = "[(''id'', JInt 2), (''created_at'', JString ''yesterday''), (''options'', JArray [])]"
  have m: "map_of ?kvs ''created_at'' = Some (JString ''yesterday'')"
    "map_of ?kvs ''options'' = Some (JArray [])"
    by simp_all
  have p: "sample_fromisoformat (replace_Z ''yesterday'') = None"
    by (simp add: sample_fromisoformat_def replace_Z_def)
  have t: "case map_of ?kvs ''created_at'' of None \<Rightarrow> True | Some v \<Rightarrow> is_str v"
    by simp
  have d: "list_all displayable [poll_a]"
    by (simp add: poll_a_def)
  note w = display_poll_fallbacks [of ?kvs "''yesterday''" sample_fromisoformat sample_strftime
      sample_repr "[poll_a]" poll_b "[poll_c]"]
  from w m p have
    "formatted_date sample_fromisoformat sample_strftime (JObject ?kvs) = Inr (JString ''yesterday'')"
    "fst (display_poll sample_fromisoformat sample_strftime sample_repr (JObject ?kvs)) ! 3
       = ''Created: '' @ ''yesterday''"
    by blast+
  moreover from w m t have
    "drop 4 (fst (display_poll sample_fromisoformat sample_strftime sample_repr (JObject ?kvs)))
       = [''Options: None'', replicate 40 (CHR ''-'')]"
    by blast
  moreover from w d have
    "take 2 (fst (display_polls sample_fromisoformat sample_strftime sample_repr
                  ([poll_a] @ poll_b # [poll_c])))
     = [CHR 0x0A # ''Displaying 3 polls:'', replicate 60 (CHR ''='')]"
    by simp
  ultimately show ?thesis using m p d by simp
qed

end
